theory Spec2Isabelle
  imports Main "HOL-Library.AList"
begin

section \<open>Python strings and paths\<close>

text \<open>
  The server is \<^verbatim>\<open>mcp_Server.py\<close>. A Python \<^verbatim>\<open>str\<close> is modelled by the
  list of the bytes of its UTF-8 encoding (\<^typ>\<open>string\<close>); prefix and suffix tests,
  concatenation, equality and the search for an ASCII character agree on both views.
  A byte list that is not valid UTF-8 stands for a \<^verbatim>\<open>str\<close> with a lone surrogate that
  no codec encodes (such as U+D800); the surrogates U+DC80 to U+DCFF, which the file
  system codec accepts and UTF-8 refuses, have no counterpart. Paths are POSIX paths on
  Linux: a name is at most 255 bytes long, and a file opened for writing in text mode
  stores line feeds as they are. Outside the model are cycles of symbolic links,
  permissions and failures of the device, and the limits on the length of a whole path
  (4096 bytes for the system, about 500 bytes for SQLite): the workspace is taken to lie
  at a path so short that no name of 255 bytes in it reaches them.
\<close>

definition rfind :: "string \<Rightarrow> char \<Rightarrow> int" where
  \<comment> \<open>\<^verbatim>\<open>s.rfind(c)\<close>: index of the last occurrence, or -1\<close>
  "rfind s c =
     (if c \<in> set s
      then int (length s) - 1 - int (length (takeWhile (\<lambda>x. x \<noteq> c) (rev s)))
      else - 1)"

definition basename :: "string \<Rightarrow> string" where
  \<comment> \<open>\<^verbatim>\<open>os.path.basename\<close> of posixpath: \<^verbatim>\<open>i = p.rfind('/') + 1; return p[i:]\<close>\<close>
  "basename p = drop (nat (rfind p (CHR ''/'') + 1)) p"

definition startswith :: "string \<Rightarrow> string \<Rightarrow> bool" where
  "startswith s pre = (take (length pre) s = pre)"

definition endswith :: "string \<Rightarrow> string \<Rightarrow> bool" where
  "endswith s suf = (length suf \<le> length s \<and> drop (length s - length suf) s = suf)"

definition lower_char :: "char \<Rightarrow> char" where
  "lower_char c =
     (let n = (of_char c :: nat) in if 65 \<le> n \<and> n \<le> 90 then char_of (n + 32) else c)"

definition lower :: "string \<Rightarrow> string" where
  \<comment> \<open>\<^verbatim>\<open>str.lower()\<close>; no character outside ASCII lowers to a letter of the
      extensions compared below\<close>
  "lower s = map lower_char s"

type_synonym path = "string list"
  \<comment> \<open>an absolute path, as the list of its components below \<^verbatim>\<open>/\<close>\<close>

definition path_str :: "path \<Rightarrow> string" where
  \<comment> \<open>\<^verbatim>\<open>str(path)\<close>\<close>
  "path_str p = (if p = [] then ''/'' else concat (map (\<lambda>c. CHR ''/'' # c) p))"

definition path_name :: "path \<Rightarrow> string" where
  \<comment> \<open>\<^verbatim>\<open>path.name\<close>: the final component\<close>
  "path_name p = (if p = [] then [] else last p)"

definition path_suffix :: "path \<Rightarrow> string" where
  \<comment> \<open>\<^verbatim>\<open>path.suffix\<close>: \<^verbatim>\<open>i = name.rfind('.')\<close>, then \<^verbatim>\<open>name[i:]\<close> if
      \<^verbatim>\<open>0 < i < len(name) - 1\<close>, else the empty string\<close>
  "path_suffix p =
     (let name = path_name p; i = rfind name (CHR ''.'')
      in if 0 < i \<and> i < int (length name) - 1 then drop (nat i) name else [])"

definition is_relative_to :: "path \<Rightarrow> path \<Rightarrow> bool" where
  \<comment> \<open>the path is the directory itself or lies below it\<close>
  "is_relative_to p d = (take (length d) p = d)"

section \<open>UTF-8 and text files\<close>

fun utf8_cont :: "char \<Rightarrow> bool" where
  "utf8_cont b = (0x80 \<le> (of_char b :: nat) \<and> (of_char b :: nat) \<le> 0xBF)"

fun utf8_second :: "nat \<Rightarrow> char \<Rightarrow> bool" where
  \<comment> \<open>the range of the second byte after the lead byte \<open>n\<close> of a three- or four-byte
      sequence: no overlong form, no surrogate, nothing above U+10FFFF\<close>
  "utf8_second n b =
     (let m = (of_char b :: nat)
      in if n = 0xE0 then 0xA0 \<le> m \<and> m \<le> 0xBF
         else if n = 0xED then 0x80 \<le> m \<and> m \<le> 0x9F
         else if n = 0xF0 then 0x90 \<le> m \<and> m \<le> 0xBF
         else if n = 0xF4 then 0x80 \<le> m \<and> m \<le> 0x8F
         else 0x80 \<le> m \<and> m \<le> 0xBF)"

definition utf8_length :: "char \<Rightarrow> nat" where
  \<comment> \<open>the length of the sequence a lead byte announces; 0 for a byte that leads none\<close>
  "utf8_length a =
     (let n = (of_char a :: nat)
      in if n < 0x80 then 1
         else if 0xC2 \<le> n \<and> n \<le> 0xDF then 2
         else if 0xE0 \<le> n \<and> n \<le> 0xEF then 3
         else if 0xF0 \<le> n \<and> n \<le> 0xF4 then 4
         else 0)"

fun utf8_tail :: "char \<Rightarrow> string \<Rightarrow> bool" where
  \<comment> \<open>the bytes that follow the lead byte \<open>a\<close> in its sequence\<close>
  "utf8_tail a [] = True"
| "utf8_tail a (b # cs) = (utf8_second (of_char a) b \<and> list_all utf8_cont cs)"

fun utf8_valid :: "string \<Rightarrow> bool" where
  \<comment> \<open>the strict UTF-8 codec accepts the bytes\<close>
  "utf8_valid [] = True"
| "utf8_valid (a # bs) =
     (let k = utf8_length a
      in 0 < k \<and> k - 1 \<le> length bs \<and> utf8_tail a (take (k - 1) bs)
         \<and> utf8_valid (drop (k - 1) bs))"

fun utf8_chunks :: "string \<Rightarrow> string list" where
  \<comment> \<open>the byte sequences of the characters, one after the other; a byte that leads no
      sequence stands alone\<close>
  "utf8_chunks [] = []"
| "utf8_chunks (a # bs) =
     (let k = utf8_length a - 1 in (a # take k bs) # utf8_chunks (drop k bs))"

definition code_point :: "string \<Rightarrow> nat" where
  \<comment> \<open>the code point that a sequence of one to four bytes encodes\<close>
  "code_point ch =
     (case ch of
        [] \<Rightarrow> 0
      | a # cs \<Rightarrow>
          foldl (\<lambda>acc b. acc * 64 + ((of_char b :: nat) - 0x80))
            ((of_char a :: nat)
               - (if length cs = 1 then 0xC0 else if length cs = 2 then 0xE0
                  else if length cs = 3 then 0xF0 else 0))
            cs)"

fun universal_newlines :: "string \<Rightarrow> string" where
  \<comment> \<open>reading in text mode with \<^verbatim>\<open>newline=None\<close>: \<^verbatim>\<open>\r\n\<close> and \<^verbatim>\<open>\r\<close> become
      \<^verbatim>\<open>\n\<close>\<close>
  "universal_newlines [] = []"
| "universal_newlines (c # cs) =
     (if c = CHR 0x0D then
        (case cs of
           [] \<Rightarrow> [CHR 0x0A]
         | d # ds \<Rightarrow> if d = CHR 0x0A then CHR 0x0A # universal_newlines ds
                    else CHR 0x0A # universal_newlines cs)
      else c # universal_newlines cs)"

section \<open>The file system and the interpreter's exceptions\<close>

datatype node = File string | Dir

record world =
  cwd :: path
  nodes :: "(path \<times> node) list"
  links :: "(string \<times> path) list"
  conns :: "path list"
  isprintable :: "nat \<Rightarrow> bool"

text \<open>
  \<open>cwd\<close> is the canonical working directory at start-up. \<open>nodes\<close> lists the regular
  files (with their bytes) and directories under their canonical paths, in directory
  order. \<open>links\<close> lists the symbolic links that are entries of the workspace directory,
  each with the canonical path the operating system resolves it to. \<open>conns\<close> holds
  the targets of the SQLite connections that are open. \<open>isprintable\<close> is the table of
  the interpreter that tells which code points are printable (\<^verbatim>\<open>str.isprintable\<close>); it
  is consulted for the code points from 128 on.
\<close>

definition TARGET_FOLDER :: "world \<Rightarrow> path" where
  \<comment> \<open>\<^verbatim>\<open>Path("./workspace").resolve()\<close>\<close>
  "TARGET_FOLDER w = cwd w @ [''workspace'']"

definition name_too_long :: "path \<Rightarrow> bool" where
  \<comment> \<open>a component of more than 255 bytes: the system refuses the path with
      \<^verbatim>\<open>ENAMETOOLONG\<close>\<close>
  "name_too_long p = list_ex (\<lambda>c. 255 < length c) p"

definition lookup :: "world \<Rightarrow> path \<Rightarrow> node option" where
  \<comment> \<open>the node at a path; there is none at a path that the system refuses\<close>
  "lookup w p =
     (if p = [] then Some Dir else if name_too_long p then None else map_of (nodes w) p)"

datatype exn_class =
    ValueError | OSError | FileNotFoundError | IsADirectoryError | NotADirectoryError
  | UnicodeDecodeError | UnicodeEncodeError | ImportError | IndexError
  | SqliteError | LibraryError

datatype py_exn = PyExn exn_class string
  \<comment> \<open>the class of a raised exception and its \<^verbatim>\<open>str(e)\<close>\<close>

fun exn_str :: "py_exn \<Rightarrow> string" where
  "exn_str (PyExn c m) = m"

fun exn_is :: "exn_class \<Rightarrow> py_exn \<Rightarrow> bool" where
  "exn_is k (PyExn c m) = (c = k)"

section \<open>The path resolver\<close>

definition resolve :: "world \<Rightarrow> string \<Rightarrow> path" where
  \<comment> \<open>\<^verbatim>\<open>(TARGET_FOLDER / safe_name).resolve()\<close> for a name without \<^verbatim>\<open>/\<close>: joining
      an empty name or \<^verbatim>\<open>.\<close> gives the folder, \<^verbatim>\<open>..\<close> resolves to its parent, a
      symbolic link to its target, and any other name stays below the folder\<close>
  "resolve w safe_name =
     (if safe_name = [] \<or> safe_name = ''.'' then TARGET_FOLDER w
      else if safe_name = ''..'' then butlast (TARGET_FOLDER w)
      else case map_of (links w) safe_name of
             Some target \<Rightarrow> target
           | None \<Rightarrow> TARGET_FOLDER w @ [safe_name])"

definition access_denied :: "string \<Rightarrow> py_exn" where
  "access_denied filename =
     PyExn ValueError (''Access denied: '' @ filename @ '' is outside the allowed directory.'')"

definition null_byte :: py_exn where
  "null_byte = PyExn ValueError ''embedded null byte''"

definition encode_error :: py_exn where
  \<comment> \<open>the message of the interpreter also names the character and its position\<close>
  "encode_error = PyExn UnicodeEncodeError ''surrogates not allowed''"

definition get_safe_path :: "world \<Rightarrow> string \<Rightarrow> py_exn + path" where
  \<comment> \<open>\<^verbatim>\<open>resolve()\<close> raises for a name that cannot be encoded, and then for a name with
      a NUL character\<close>
  "get_safe_path w filename =
     (let safe_name = basename filename
      in if \<not> utf8_valid safe_name then Inl encode_error
         else if CHR 0x00 \<in> set safe_name then Inl null_byte
         else
           (let full_path = resolve w safe_name
            in if \<not> startswith (path_str full_path) (path_str (TARGET_FOLDER w))
               then Inl (access_denied filename)
               else Inr full_path))"

section \<open>Rendering values: \<^verbatim>\<open>str\<close> and \<^verbatim>\<open>repr\<close>\<close>

fun digits :: "nat \<Rightarrow> string" where
  "digits n =
     (if n < 10 then [char_of (48 + n)] else digits (n div 10) @ [char_of (48 + n mod 10)])"

declare digits.simps [simp del]

definition str_int :: "int \<Rightarrow> string" where
  "str_int i = (if i < 0 then CHR ''-'' # digits (nat (- i)) else digits (nat i))"

definition hex_digit :: "nat \<Rightarrow> char" where
  "hex_digit n = (if n < 10 then char_of (48 + n) else char_of (87 + n))"

definition repr_char :: "bool \<Rightarrow> char \<Rightarrow> char \<Rightarrow> string" where
  \<comment> \<open>one character inside the quotes \<open>q\<close>; \<open>bin\<close> is set for \<^verbatim>\<open>bytes\<close>, whose
      bytes from 0x80 on are escaped, where a \<^verbatim>\<open>str\<close> keeps its printable
      characters\<close>
  "repr_char bin q c =
     (let n = (of_char c :: nat)
      in if c = q \<or> c = CHR 0x5C then [CHR 0x5C, c]
         else if n = 9 then [CHR 0x5C, CHR ''t'']
         else if n = 10 then [CHR 0x5C, CHR ''n'']
         else if n = 13 then [CHR 0x5C, CHR ''r'']
         else if n < 32 \<or> n = 127 \<or> (bin \<and> 128 \<le> n)
           then [CHR 0x5C, CHR ''x'', hex_digit (n div 16), hex_digit (n mod 16)]
         else [c])"

definition quote_for :: "string \<Rightarrow> char" where
  "quote_for s = (if CHR 0x27 \<in> set s \<and> CHR 0x22 \<notin> set s then CHR 0x22 else CHR 0x27)"

fun hex_fixed :: "nat \<Rightarrow> nat \<Rightarrow> string" where
  \<comment> \<open>the last \<open>k\<close> hexadecimal digits of a number\<close>
  "hex_fixed 0 n = []"
| "hex_fixed (Suc k) n = hex_fixed k (n div 16) @ [hex_digit (n mod 16)]"

definition repr_chunk :: "(nat \<Rightarrow> bool) \<Rightarrow> char \<Rightarrow> string \<Rightarrow> string" where
  \<comment> \<open>one character of a \<^verbatim>\<open>str\<close> inside the quotes \<open>q\<close>, given by its bytes: a
      character outside ASCII is kept when it is printable and escaped otherwise\<close>
  "repr_chunk printable q ch =
     (case ch of
        [c] \<Rightarrow> repr_char False q c
      | _ \<Rightarrow>
          (let cp = code_point ch
           in if printable cp then ch
              else if cp < 0x100 then [CHR 0x5C, CHR ''x''] @ hex_fixed 2 cp
              else if cp < 0x10000 then [CHR 0x5C, CHR ''u''] @ hex_fixed 4 cp
              else [CHR 0x5C, CHR ''U''] @ hex_fixed 8 cp))"

definition py_repr :: "world \<Rightarrow> string \<Rightarrow> string" where
  \<comment> \<open>\<^verbatim>\<open>repr\<close> of a \<^verbatim>\<open>str\<close> (one that can be encoded)\<close>
  "py_repr w s =
     (let q = quote_for s
      in q # concat (map (repr_chunk (isprintable w) q) (utf8_chunks s)) @ [q])"

definition bytes_repr :: "string \<Rightarrow> string" where
  "bytes_repr s =
     (let q = quote_for s in CHR ''b'' # q # concat (map (repr_char True q) s) @ [q])"

fun join :: "string \<Rightarrow> string list \<Rightarrow> string" where
  \<comment> \<open>\<^verbatim>\<open>sep.join(xs)\<close>\<close>
  "join sep [] = []"
| "join sep [x] = x"
| "join sep (x # y # ys) = x @ sep @ join sep (y # ys)"

datatype sql_value =
    SqlNull | SqlInteger int | SqlReal string | SqlText string | SqlBlob string
  \<comment> \<open>a value of a result row; a float is carried as the text Python prints for it\<close>

fun value_repr :: "world \<Rightarrow> sql_value \<Rightarrow> string" where
  "value_repr w SqlNull = ''None''"
| "value_repr w (SqlInteger i) = str_int i"
| "value_repr w (SqlReal r) = r"
| "value_repr w (SqlText s) = py_repr w s"
| "value_repr w (SqlBlob b) = bytes_repr b"

fun value_str :: "world \<Rightarrow> sql_value \<Rightarrow> string" where
  \<comment> \<open>what an f-string inserts\<close>
  "value_str w (SqlText s) = s"
| "value_str w v = value_repr w v"

definition py_dict :: "(string \<times> sql_value) list \<Rightarrow> (string \<times> sql_value) list" where
  \<comment> \<open>\<^verbatim>\<open>dict(pairs)\<close>: a repeated key keeps its first place and takes the last value\<close>
  "py_dict kvs = foldl (\<lambda>d (k, v). AList.update k v d) [] kvs"

definition repr_dict :: "world \<Rightarrow> (string \<times> sql_value) list \<Rightarrow> string" where
  "repr_dict w d =
     ''{'' @ join '', '' (map (\<lambda>(k, v). py_repr w k @ '': '' @ value_repr w v) d) @ ''}''"

definition repr_list :: "string list \<Rightarrow> string" where
  "repr_list xs = ''['' @ join '', '' xs @ '']''"

section \<open>Operating-system calls\<close>

definition os_error :: "world \<Rightarrow> exn_class \<Rightarrow> path \<Rightarrow> py_exn" where
  "os_error w c p =
     PyExn c
       ((if c = IsADirectoryError then ''[Errno 21] Is a directory: ''
         else if c = NotADirectoryError then ''[Errno 20] Not a directory: ''
         else if c = OSError then ''[Errno 36] File name too long: ''
         else ''[Errno 2] No such file or directory: '') @ py_repr w (path_str p))"

definition path_exists :: "world \<Rightarrow> path \<Rightarrow> py_exn + bool" where
  \<comment> \<open>\<^verbatim>\<open>path.exists()\<close> on a resolved path: it raises for a name that is too long\<close>
  "path_exists w p =
     (if name_too_long p then Inl (os_error w OSError p) else Inr (lookup w p \<noteq> None))"

definition set_file :: "world \<Rightarrow> path \<Rightarrow> string \<Rightarrow> world" where
  "set_file w p b = w\<lparr>nodes := AList.update p (File b) (nodes w)\<rparr>"

definition open_read :: "world \<Rightarrow> path \<Rightarrow> py_exn + string" where
  \<comment> \<open>opening a file for reading gives its bytes\<close>
  "open_read w p =
     (if name_too_long p then Inl (os_error w OSError p)
      else case lookup w p of
             None \<Rightarrow> Inl (os_error w FileNotFoundError p)
           | Some Dir \<Rightarrow> Inl (os_error w IsADirectoryError p)
           | Some (File b) \<Rightarrow> Inr b)"

definition decode_text :: "string \<Rightarrow> py_exn + string" where
  \<comment> \<open>\<^verbatim>\<open>f.read()\<close> of a file opened with \<^verbatim>\<open>"r", encoding="utf-8"\<close>; the text of
      the decoding error is never shown\<close>
  "decode_text b =
     (if utf8_valid b then Inr (universal_newlines b)
      else Inl (PyExn UnicodeDecodeError ''invalid utf-8''))"

definition open_write :: "world \<Rightarrow> path \<Rightarrow> string \<Rightarrow> py_exn + world \<times> string" where
  \<comment> \<open>\<^verbatim>\<open>open(p, m)\<close> for \<open>m\<close> one of \<^verbatim>\<open>"w"\<close>, \<^verbatim>\<open>"a"\<close>: the file is created or
      truncated by the opening itself; the result also gives the bytes the file holds then\<close>
  "open_write w p m =
     (if name_too_long p then Inl (os_error w OSError p)
      else case lookup w p of
             Some Dir \<Rightarrow> Inl (os_error w IsADirectoryError p)
           | Some (File b) \<Rightarrow> if m = ''a'' then Inr (w, b) else Inr (set_file w p [], [])
           | None \<Rightarrow>
               (case lookup w (butlast p) of
                  Some Dir \<Rightarrow> Inr (set_file w p [], [])
                | Some (File b) \<Rightarrow> Inl (os_error w NotADirectoryError p)
                | None \<Rightarrow> Inl (os_error w FileNotFoundError p)))"

definition os_remove :: "world \<Rightarrow> path \<Rightarrow> py_exn + world" where
  "os_remove w p =
     (if name_too_long p then Inl (os_error w OSError p)
      else case lookup w p of
             None \<Rightarrow> Inl (os_error w FileNotFoundError p)
           | Some Dir \<Rightarrow> Inl (os_error w IsADirectoryError p)
           | Some (File b) \<Rightarrow> Inr (w\<lparr>nodes := AList.delete p (nodes w)\<rparr>))"

definition iterdir :: "world \<Rightarrow> path \<Rightarrow> py_exn + string list" where
  \<comment> \<open>the names of the entries of a directory\<close>
  "iterdir w d =
     (if name_too_long d then Inl (os_error w OSError d)
      else case lookup w d of
             None \<Rightarrow> Inl (os_error w FileNotFoundError d)
           | Some (File b) \<Rightarrow> Inl (os_error w NotADirectoryError d)
           | Some Dir \<Rightarrow>
               Inr (map (\<lambda>(p, n). last p)
                      (filter (\<lambda>(p, n). p \<noteq> [] \<and> butlast p = d \<and> \<not> name_too_long p)
                         (nodes w))
                    @ (if d = TARGET_FOLDER w then map fst (links w) else [])))"

definition is_file :: "world \<Rightarrow> string \<Rightarrow> py_exn + bool" where
  \<comment> \<open>\<^verbatim>\<open>f.is_file()\<close> for the entry \<open>name\<close> of the folder; a link is followed, and
      a target with a name that is too long makes the call raise\<close>
  "is_file w name =
     (let p = resolve w name
      in if name_too_long p then Inl (os_error w OSError p)
         else Inr (case lookup w p of Some (File b) \<Rightarrow> True | _ \<Rightarrow> False))"

fun regular_files :: "world \<Rightarrow> string list \<Rightarrow> py_exn + string list" where
  \<comment> \<open>\<^verbatim>\<open>[f.name for f in ... if f.is_file()]\<close>\<close>
  "regular_files w [] = Inr []"
| "regular_files w (n # ns) =
     (case is_file w n of
        Inl e \<Rightarrow> Inl e
      | Inr b \<Rightarrow>
          (case regular_files w ns of
             Inl e \<Rightarrow> Inl e
           | Inr fs \<Rightarrow> Inr (if b then n # fs else fs)))"

section \<open>The libraries: text extraction and SQLite\<close>

datatype exec_outcome =
    ExecError string
  | ExecOk "string list option" "sql_value list list" nat string bool
  \<comment> \<open>a statement fails with a message and no effect, or it gives the column names of
      its result set (if it has one), the rows, the number of rows it changed, the new
      image of the database, and whether it is a writing statement that still has rows to
      hand out (\<^verbatim>\<open>INSERT ... RETURNING\<close> before its rows are fetched)\<close>

record env =
  sql_engine :: "string \<Rightarrow> string \<Rightarrow> exec_outcome"
  pypdf :: "(string \<Rightarrow> string + string list) option"
  python_docx :: "(string \<Rightarrow> string + string list) option"

text \<open>
  The libraries are parameters. \<open>sql_engine\<close> runs one statement on the image of a
  database. \<open>pypdf\<close> and \<open>python_docx\<close> are absent when the package is not installed;
  else they give the texts of the pages (of the paragraphs) of a file's bytes, or the
  message of the exception they raise.
\<close>

record connection =
  conn_path :: path
  conn_image :: string
  total_changes :: nat
  in_progress :: bool

record cursor =
  description :: "string list option"
  fetchall :: "sql_value list list"

definition unable_to_open :: py_exn where
  "unable_to_open = PyExn SqliteError ''unable to open database file''"

definition sqlite3_connect :: "world \<Rightarrow> path \<Rightarrow> (py_exn + connection) \<times> world" where
  \<comment> \<open>\<^verbatim>\<open>sqlite3.connect(p)\<close>: a missing file is created empty; a directory, a target
      in no directory and a name that is too long cannot be opened\<close>
  "sqlite3_connect w p =
     (if name_too_long p then (Inl unable_to_open, w)
      else case lookup w p of
             Some Dir \<Rightarrow> (Inl unable_to_open, w)
           | Some (File b) \<Rightarrow>
               (Inr \<lparr>conn_path = p, conn_image = b, total_changes = 0, in_progress = False\<rparr>,
                w\<lparr>conns := p # conns w\<rparr>)
           | None \<Rightarrow>
               (case lookup w (butlast p) of
                  Some Dir \<Rightarrow>
                    (Inr \<lparr>conn_path = p, conn_image = [], total_changes = 0,
                         in_progress = False\<rparr>,
                     (set_file w p [])\<lparr>conns := p # conns w\<rparr>)
                | _ \<Rightarrow> (Inl unable_to_open, w)))"

definition execute :: "env \<Rightarrow> connection \<Rightarrow> string \<Rightarrow> py_exn + cursor \<times> connection" where
  \<comment> \<open>\<^verbatim>\<open>cursor.execute(query)\<close>\<close>
  "execute env conn query =
     (case sql_engine env (conn_image conn) query of
        ExecError m \<Rightarrow> Inl (PyExn SqliteError m)
      | ExecOk d rows n img busy \<Rightarrow>
          Inr (\<lparr>description = d, fetchall = rows\<rparr>,
               conn\<lparr>conn_image := img, total_changes := total_changes conn + n,
                    in_progress := busy\<rparr>))"

definition commit :: "world \<Rightarrow> connection \<Rightarrow> py_exn + world" where
  \<comment> \<open>\<^verbatim>\<open>conn.commit()\<close>: SQLite refuses while a writing statement is in progress\<close>
  "commit w conn =
     (if in_progress conn
      then Inl (PyExn SqliteError ''cannot commit transaction - SQL statements in progress'')
      else Inr (set_file w (conn_path conn) (conn_image conn)))"

definition close :: "world \<Rightarrow> connection \<Rightarrow> world" where
  \<comment> \<open>what was not committed is dropped with the connection\<close>
  "close w conn = w\<lparr>conns := remove1 (conn_path conn) (conns w)\<rparr>"

section \<open>The tools\<close>

text \<open>
  A tool returns a string or lets an exception escape, and leaves a world behind. Every
  exception of the model is an instance of \<^verbatim>\<open>Exception\<close>, so the clause
  \<^verbatim>\<open>except Exception as e\<close> handles each of them.
\<close>

type_synonym reply = "(py_exn + string) \<times> world"

definition except_Exception :: "reply \<Rightarrow> (py_exn \<Rightarrow> string) \<Rightarrow> reply" where
  "except_Exception r handler =
     (case r of (Inl e, w) \<Rightarrow> (Inr (handler e), w) | (Inr s, w) \<Rightarrow> (Inr s, w))"

definition check_mark :: string where
  \<comment> \<open>the seven bytes that precede the messages of success in the source file\<close>
  "check_mark = [CHR 0xC3, CHR 0xA2, CHR 0xC5, CHR 0x93, CHR 0xE2, CHR 0x80, CHR 0xA6]"

definition read_pdf :: "env \<Rightarrow> world \<Rightarrow> path \<Rightarrow> string" where
  "read_pdf env w p =
     (case pypdf env of
        None \<Rightarrow> ''Error: 'pypdf' not installed.''
      | Some extract \<Rightarrow>
          (case open_read w p of
             Inl e \<Rightarrow> ''Error reading PDF: '' @ exn_str e
           | Inr b \<Rightarrow>
               (case extract b of
                  Inl m \<Rightarrow> ''Error reading PDF: '' @ m
                | Inr pages \<Rightarrow> foldl (\<lambda>text page. text @ page @ [CHR 0x0A]) [] pages)))"

definition read_docx :: "env \<Rightarrow> world \<Rightarrow> path \<Rightarrow> string" where
  "read_docx env w p =
     (case python_docx env of
        None \<Rightarrow> ''Error: 'python-docx' not installed.''
      | Some paragraphs \<Rightarrow>
          (case open_read w p of
             Inl e \<Rightarrow> ''Error reading DOCX: '' @ exn_str e
           | Inr b \<Rightarrow>
               (case paragraphs b of
                  Inl m \<Rightarrow> ''Error reading DOCX: '' @ m
                | Inr paras \<Rightarrow> join [CHR 0x0A] paras)))"

definition list_files :: "world \<Rightarrow> reply" where
  "list_files w =
     except_Exception
       (case iterdir w (TARGET_FOLDER w) of
          Inl e \<Rightarrow> (Inl e, w)
        | Inr names \<Rightarrow>
            (case regular_files w names of
               Inl e \<Rightarrow> (Inl e, w)
             | Inr files \<Rightarrow>
                 if files = [] then (Inr ''The workspace is empty.'', w)
                 else (Inr (''Files available:'' @ [CHR 0x0A]
                            @ join [CHR 0x0A] (map (\<lambda>f. ''- '' @ f) files)), w)))
       (\<lambda>e. ''Error listing files: '' @ exn_str e)"

definition not_found :: "string \<Rightarrow> string" where
  "not_found filename = ''Error: File '' @ [CHR 0x27] @ filename @ [CHR 0x27] @ '' not found.''"

definition binary_detected :: string where
  "binary_detected = ''Error: Binary file detected. Use 'inspect_sql_db' for databases.''"

definition read_file :: "env \<Rightarrow> world \<Rightarrow> string \<Rightarrow> reply" where
  "read_file env w filename =
     except_Exception
       (case get_safe_path w filename of
          Inl e \<Rightarrow> (Inl e, w)
        | Inr file_path \<Rightarrow>
            (case path_exists w file_path of
               Inl e \<Rightarrow> (Inl e, w)
             | Inr found \<Rightarrow>
                 if \<not> found then (Inr (not_found filename), w)
                 else
                   (let suffix = lower (path_suffix file_path)
                    in if suffix = ''.pdf'' then (Inr (read_pdf env w file_path), w)
                       else if suffix = ''.docx'' then (Inr (read_docx env w file_path), w)
                       else
                         (case (case open_read w file_path of
                                  Inl e \<Rightarrow> Inl e
                                | Inr b \<Rightarrow> decode_text b) of
                            Inl e \<Rightarrow>
                              if exn_is UnicodeDecodeError e then (Inr binary_detected, w)
                              else (Inl e, w)
                          | Inr text \<Rightarrow> (Inr text, w)))))
       (\<lambda>e. ''Error: '' @ exn_str e)"

definition cannot_write :: string where
  "cannot_write = ''Error: Cannot write text directly to binary/database files.''"

definition wrote :: "string \<Rightarrow> string" where
  "wrote filename = check_mark @ '' Successfully wrote to '' @ filename"

definition write_to_file :: "world \<Rightarrow> string \<Rightarrow> string \<Rightarrow> string \<Rightarrow> reply" where
  "write_to_file w filename content mode =
     except_Exception
       (case get_safe_path w filename of
          Inl e \<Rightarrow> (Inl e, w)
        | Inr file_path \<Rightarrow>
            (case path_exists w file_path of
               Inl e \<Rightarrow> (Inl e, w)
             | Inr found \<Rightarrow>
                 if found
                    \<and> lower (path_suffix file_path)
                        \<in> set [''.pdf'', ''.docx'', ''.db'', ''.sqlite'']
                 then (Inr cannot_write, w)
                 else
                   (let write_mode = (if mode = ''a'' then ''a'' else ''w'')
                    in case open_write w file_path write_mode of
                         Inl e \<Rightarrow> (Inl e, w)
                       | Inr (w1, old) \<Rightarrow>
                           if utf8_valid content
                           then (Inr (wrote filename), set_file w1 file_path (old @ content))
                           else (Inl encode_error, w1))))
       (\<lambda>e. ''Error: '' @ exn_str e)"

definition deleted :: "string \<Rightarrow> string" where
  "deleted filename = check_mark @ '' Successfully deleted '' @ filename"

definition delete_file :: "world \<Rightarrow> string \<Rightarrow> reply" where
  "delete_file w filename =
     except_Exception
       (case get_safe_path w filename of
          Inl e \<Rightarrow> (Inl e, w)
        | Inr file_path \<Rightarrow>
            (case path_exists w file_path of
               Inl e \<Rightarrow> (Inl e, w)
             | Inr found \<Rightarrow>
                 if \<not> found then (Inr (not_found filename), w)
                 else
                   (case os_remove w file_path of
                      Inl e \<Rightarrow> (Inl e, w)
                    | Inr w1 \<Rightarrow> (Inr (deleted filename), w1))))
       (\<lambda>e. ''Error deleting file: '' @ exn_str e)"

definition bad_extension :: string where
  "bad_extension = ''Error: Database filename must end with .db or .sqlite''"

definition already_exists :: "string \<Rightarrow> string" where
  "already_exists filename =
     ''Error: File '' @ [CHR 0x27] @ filename @ [CHR 0x27] @ '' already exists.''"

definition created :: "string \<Rightarrow> string" where
  "created filename = check_mark @ '' Created new database: '' @ filename"

definition create_sql_db :: "world \<Rightarrow> string \<Rightarrow> reply" where
  "create_sql_db w filename =
     (if \<not> (endswith filename ''.db'' \<or> endswith filename ''.sqlite'')
      then (Inr bad_extension, w)
      else
        except_Exception
          (case get_safe_path w filename of
             Inl e \<Rightarrow> (Inl e, w)
           | Inr file_path \<Rightarrow>
               (case path_exists w file_path of
                  Inl e \<Rightarrow> (Inl e, w)
                | Inr found \<Rightarrow>
                    if found then (Inr (already_exists filename), w)
                    else
                      (case sqlite3_connect w file_path of
                         (Inl e, w1) \<Rightarrow> (Inl e, w1)
                       | (Inr conn, w1) \<Rightarrow> (Inr (created filename), close w1 conn))))
          (\<lambda>e. ''Error creating database: '' @ exn_str e))"

definition index_error :: py_exn where
  "index_error = PyExn IndexError ''tuple index out of range''"

fun inspect_columns :: "world \<Rightarrow> string \<Rightarrow> sql_value list list \<Rightarrow> py_exn + string" where
  \<comment> \<open>the inner loop over the rows of \<^verbatim>\<open>PRAGMA table_info\<close>\<close>
  "inspect_columns w report [] = Inr report"
| "inspect_columns w report (col # cols) =
     (if length col < 3 then Inl index_error
      else inspect_columns w
             (report @ ''  - '' @ value_str w (col ! 1) @ '' ('' @ value_str w (col ! 2)
              @ '')'' @ [CHR 0x0A]) cols)"

fun inspect_tables ::
  "env \<Rightarrow> world \<Rightarrow> connection \<Rightarrow> string \<Rightarrow> sql_value list list \<Rightarrow> py_exn + string" where
  \<comment> \<open>the loop over the tables\<close>
  "inspect_tables env w conn report [] = Inr report"
| "inspect_tables env w conn report (table # tables) =
     (case table of
        [] \<Rightarrow> Inl index_error
      | t_name # rest \<Rightarrow>
          (case execute env conn (''PRAGMA table_info('' @ value_str w t_name @ '');'') of
             Inl e \<Rightarrow> Inl e
           | Inr (cur, conn1) \<Rightarrow>
               (case inspect_columns w
                       (report @ [CHR 0x0A] @ ''Table: '' @ value_str w t_name @ [CHR 0x0A]
                        @ replicate 20 (CHR ''-'') @ [CHR 0x0A])
                       (fetchall cur) of
                  Inl e \<Rightarrow> Inl e
                | Inr report1 \<Rightarrow> inspect_tables env w conn1 report1 tables)))"

definition inspect_sql_db :: "env \<Rightarrow> world \<Rightarrow> string \<Rightarrow> reply" where
  "inspect_sql_db env w filename =
     except_Exception
       (case get_safe_path w filename of
          Inl e \<Rightarrow> (Inl e, w)
        | Inr file_path \<Rightarrow>
            (case path_exists w file_path of
               Inl e \<Rightarrow> (Inl e, w)
             | Inr found \<Rightarrow>
                 if \<not> found then (Inr ''Error: Database file not found.'', w)
                 else
                   (case sqlite3_connect w file_path of
                      (Inl e, w1) \<Rightarrow> (Inl e, w1)
                    | (Inr conn, w1) \<Rightarrow>
                        (case execute env conn
                                ''SELECT name FROM sqlite_master WHERE type='table';'' of
                           Inl e \<Rightarrow> (Inl e, w1)
                         | Inr (cur, conn1) \<Rightarrow>
                             (let tables = fetchall cur
                              in if tables = []
                                 then (Inr ''Database is empty.'', close w1 conn1)
                                 else
                                   (case inspect_tables env w conn1
                                           (''Schema for '' @ filename @ '':'' @ [CHR 0x0A])
                                           tables of
                                      Inl e \<Rightarrow> (Inl e, w1)
                                    | Inr report \<Rightarrow> (Inr report, close w1 conn1)))))))
       (\<lambda>e. ''Error: '' @ exn_str e)"

definition rows_affected :: "nat \<Rightarrow> string" where
  "rows_affected changes = check_mark @ '' Success. Rows affected: '' @ str_int (int changes)"

definition render_rows :: "world \<Rightarrow> string list \<Rightarrow> sql_value list list \<Rightarrow> string" where
  \<comment> \<open>\<^verbatim>\<open>str([dict(zip(cols, row)) for row in rows])\<close>\<close>
  "render_rows w cols rows =
     repr_list (map (\<lambda>row. repr_dict w (py_dict (zip cols row))) rows)"

definition run_sql_query :: "env \<Rightarrow> world \<Rightarrow> string \<Rightarrow> string \<Rightarrow> reply" where
  "run_sql_query env w filename query =
     except_Exception
       (case get_safe_path w filename of
          Inl e \<Rightarrow> (Inl e, w)
        | Inr file_path \<Rightarrow>
            (case sqlite3_connect w file_path of
               (Inl e, w1) \<Rightarrow> (Inl e, w1)
             | (Inr conn, w1) \<Rightarrow>
                 (case execute env conn query of
                    Inl e \<Rightarrow> (Inr (''Query Execution Error: '' @ exn_str e), close w1 conn)
                  | Inr (cur, conn1) \<Rightarrow>
                      (case commit w1 conn1 of
                         Inl e \<Rightarrow>
                           (Inr (''Query Execution Error: '' @ exn_str e), close w1 conn1)
                       | Inr w2 \<Rightarrow>
                           (case description cur of
                              Some (d # ds) \<Rightarrow>
                                (let rows = fetchall cur;
                                     cols = d # ds;
                                     w3 = close w2 conn1
                                 in if rows = [] then (Inr ''Query returned 0 results.'', w3)
                                    else (Inr (render_rows w cols rows), w3))
                            | _ \<Rightarrow>
                                (let changes = total_changes conn1;
                                     w3 = close w2 conn1
                                 in (Inr (rows_affected changes), w3)))))))
       (\<lambda>e. ''System Error: '' @ exn_str e)"

section \<open>Predicates and concrete worlds\<close>

definition returns_string :: "reply \<Rightarrow> bool" where
  \<comment> \<open>the tool came back with a string; no exception went past it\<close>
  "returns_string r = (case fst r of Inl e \<Rightarrow> False | Inr s \<Rightarrow> True)"

definition toy_engine :: "string \<Rightarrow> string \<Rightarrow> exec_outcome" where
  \<comment> \<open>a stand-in for SQLite that knows four statements and rejects the rest\<close>
  "toy_engine img q =
     (if q = ''SELECT 1'' then ExecOk (Some [''1'']) [[SqlInteger 1]] 0 img False
      else if q = ''SELECT 1 WHERE 0'' then ExecOk (Some [''1'']) [] 0 img False
      else if q = ''CREATE TABLE t(id INT)''
        then ExecOk None [] 0 (img @ ''t(id INT);'') False
      else if q = ''INSERT INTO t VALUES (1) RETURNING id''
        then ExecOk (Some [''id'']) [[SqlInteger 1]] 1 (img @ ''t:1;'') True
      else ExecError (''near '' @ [CHR 0x22] @ q @ [CHR 0x22] @ '': syntax error''))"

definition toy_env :: env where
  "toy_env = \<lparr> sql_engine = toy_engine, pypdf = None, python_docx = None \<rparr>"

definition latin_printable :: "nat \<Rightarrow> bool" where
  \<comment> \<open>a stand-in for the table of the interpreter, exact below U+0100\<close>
  "latin_printable n = (0xA0 < n \<and> n \<noteq> 0xAD)"

definition small_world :: world where
  "small_world =
     \<lparr> cwd = [''srv''],
       nodes = [([''srv''], Dir), ([''srv'', ''workspace''], Dir),
                ([''srv'', ''workspace'', ''a.txt''], File ''hello''),
                ([''srv'', ''workspace'', ''report.pdf''], File ''%PDF''),
                ([''srv'', ''workspace'', ''data.db''], File ''image'')],
       links = [],
       conns = [],
       isprintable = latin_printable \<rparr>"

definition sibling_world :: world where
  \<comment> \<open>the entry \<^verbatim>\<open>notes.txt\<close> of the workspace is a link into a sibling directory\<close>
  "sibling_world =
     \<lparr> cwd = [''srv''],
       nodes = [([''srv''], Dir), ([''srv'', ''workspace''], Dir),
                ([''srv'', ''workspace-old''], Dir),
                ([''srv'', ''workspace-old'', ''notes.txt''], File ''secret'')],
       links = [(''notes.txt'', [''srv'', ''workspace-old'', ''notes.txt''])],
       conns = [],
       isprintable = latin_printable \<rparr>"

section \<open>Auxiliary facts\<close>

lemmas path_defs = get_safe_path_def basename_def rfind_def resolve_def TARGET_FOLDER_def
  startswith_def path_str_def path_suffix_def path_name_def lower_def lower_char_def
  lookup_def path_exists_def name_too_long_def utf8_length_def

lemmas file_defs = write_to_file_def read_file_def except_Exception_def open_write_def
  open_read_def set_file_def decode_text_def os_error_def

lemmas repr_defs = py_repr_def quote_for_def repr_chunk_def repr_char_def

lemma basename_rev: "basename p = rev (takeWhile (\<lambda>x. x \<noteq> CHR ''/'') (rev p))"
proof (cases "CHR ''/'' \<in> set p")
  case False
  have b: "basename p = p"
    using False by (simp add: basename_def rfind_def)
  have t: "takeWhile (\<lambda>x. x \<noteq> CHR ''/'') (rev p) = rev p"
    by (rule takeWhile_eq_all_conv [THEN iffD2]) (use False in auto)
  show ?thesis
    unfolding b t by simp
next
  case True
  have len: "length (takeWhile (\<lambda>x. x \<noteq> CHR ''/'') (rev p)) \<le> length p"
    using length_takeWhile_le [of "\<lambda>x. x \<noteq> CHR ''/''" "rev p"] by simp
  define k where "k = length (takeWhile (\<lambda>x. x \<noteq> CHR ''/'') (rev p))"
  have "basename p = drop (length p - k) p"
    using True len by (simp add: basename_def rfind_def k_def nat_diff_distrib')
  also have "\<dots> = rev (take k (rev p))"
    by (simp add: take_rev)
  also have "take k (rev p) = takeWhile (\<lambda>x. x \<noteq> CHR ''/'') (rev p)"
    unfolding k_def
    by (metis append_eq_conv_conj takeWhile_dropWhile_id)
  finally show ?thesis .
qed

lemma basename_no_slash: "CHR ''/'' \<notin> set (basename p)"
  by (auto simp: basename_rev dest: set_takeWhileD)

lemma basename_append:
  assumes "CHR ''/'' \<notin> set s"
  shows "basename (g @ s) = basename g @ s"
proof -
  have "takeWhile (\<lambda>x. x \<noteq> CHR ''/'') (rev s @ rev g)
        = rev s @ takeWhile (\<lambda>x. x \<noteq> CHR ''/'') (rev g)"
    by (rule takeWhile_append2) (use assms in auto)
  then show ?thesis
    by (simp add: basename_rev)
qed

lemma get_safe_path_frame:
  assumes "cwd w' = cwd w" and "links w' = links w"
  shows "get_safe_path w' f = get_safe_path w f"
proof -
  have T: "TARGET_FOLDER w' = TARGET_FOLDER w"
    by (simp add: TARGET_FOLDER_def assms)
  have R: "resolve w' n = resolve w n" for n
    by (simp add: resolve_def T assms split: option.split)
  show ?thesis
    by (simp add: get_safe_path_def T R Let_def)
qed

lemma get_safe_path_Inl:
  "get_safe_path w f = Inl e \<Longrightarrow> e = access_denied f \<or> e = null_byte \<or> e = encode_error"
  by (auto simp: get_safe_path_def Let_def split: if_splits)

lemma get_safe_path_startswith:
  "get_safe_path w f = Inr p \<Longrightarrow> startswith (path_str p) (path_str (TARGET_FOLDER w))"
  by (auto simp: get_safe_path_def Let_def split: if_splits)

lemma parent_not_prefixed:
  "\<not> startswith (path_str (butlast (TARGET_FOLDER w))) (path_str (TARGET_FOLDER w))"
proof -
  have "length (path_str (cwd w)) < length (path_str (cwd w @ [''workspace'']))"
    by (simp add: path_str_def)
  then show ?thesis
    by (auto simp: startswith_def TARGET_FOLDER_def)
qed

text \<open>
  Without symbolic links in the workspace the resolver is confined: it returns the
  workspace or the entry of the workspace named by the last component.
\<close>

lemma get_safe_path_without_links:
  assumes "links w = []" and "get_safe_path w f = Inr p"
  shows "p = TARGET_FOLDER w \<or> p = TARGET_FOLDER w @ [basename f]"
  using assms parent_not_prefixed [of w]
  by (auto simp: get_safe_path_def resolve_def Let_def split: if_splits)

lemma get_safe_path_confined_without_links:
  assumes "links w = []" and "get_safe_path w f = Inr p"
  shows "is_relative_to p (TARGET_FOLDER w)"
  using get_safe_path_without_links [OF assms]
  by (auto simp: is_relative_to_def)

lemma get_safe_path_set_file [simp]: "get_safe_path (set_file w p b) f = get_safe_path w f"
  by (rule get_safe_path_frame) (simp_all add: set_file_def)

lemma lookup_short: "lookup w p = Some n \<Longrightarrow> \<not> name_too_long p"
  by (auto simp: lookup_def name_too_long_def split: if_splits)

lemma path_exists_found: "lookup w p = Some n \<Longrightarrow> path_exists w p = Inr True"
  by (frule lookup_short) (simp add: path_exists_def)

lemma path_exists_missing:
  "path_exists w p = Inr False \<longleftrightarrow> \<not> name_too_long p \<and> lookup w p = None"
  by (auto simp: path_exists_def)

lemma path_exists_Inl: "path_exists w p = Inl e \<Longrightarrow> e = os_error w OSError p"
  by (auto simp: path_exists_def split: if_splits)

lemma lookup_set_file:
  "p \<noteq> [] \<Longrightarrow> \<not> name_too_long p \<Longrightarrow>
   lookup (set_file w p b) q = (if q = p then Some (File b) else lookup w q)"
  by (simp add: lookup_def set_file_def update_conv')

lemma utf8_valid_append: "utf8_valid xs \<Longrightarrow> utf8_valid ys \<Longrightarrow> utf8_valid (xs @ ys)"
proof (induction xs rule: utf8_valid.induct)
  case 1
  then show ?case by simp
next
  case (2 a bs)
  define k where "k = utf8_length a - 1"
  have unfold: "utf8_valid (a # zs) \<longleftrightarrow>
      0 < utf8_length a \<and> k \<le> length zs \<and> utf8_tail a (take k zs) \<and> utf8_valid (drop k zs)"
    for zs
    by (simp add: Let_def k_def)
  from "2.prems"(1) have k: "0 < utf8_length a" "k \<le> length bs" "utf8_tail a (take k bs)"
    "utf8_valid (drop k bs)"
    by (simp_all only: unfold)
  have "utf8_valid (drop k bs @ ys)"
    using "2.IH" k "2.prems"(2) by (simp add: k_def)
  with k have "utf8_valid (a # (bs @ ys))"
    by (simp only: unfold) simp
  then show ?case by simp
qed

lemma universal_newlines_id: "CHR 0x0D \<notin> set s \<Longrightarrow> universal_newlines s = s"
  by (induction s) auto

lemma returns_string_except: "returns_string (except_Exception r handler)"
  by (cases r) (auto simp: except_Exception_def returns_string_def split: sum.splits)

lemma open_write_w:
  "open_write w p ''w'' = Inr (w0, old) \<Longrightarrow>
     p \<noteq> [] \<and> \<not> name_too_long p \<and> old = [] \<and> w0 = set_file w p []"
  by (auto simp: open_write_def lookup_def split: option.splits node.splits if_splits)

lemma open_write_a:
  "open_write w p ''a'' = Inr (w0, old) \<Longrightarrow>
     p \<noteq> [] \<and> \<not> name_too_long p
     \<and> ((lookup w p = Some (File old) \<and> w0 = w)
          \<or> (lookup w p = None \<and> old = [] \<and> w0 = set_file w p []))"
  by (auto simp: open_write_def lookup_def split: option.splits node.splits if_splits)

lemma open_write_new:
  "open_write w p m = Inr (w0, old) \<Longrightarrow> lookup w p = None \<Longrightarrow>
     p \<noteq> [] \<and> \<not> name_too_long p \<and> old = [] \<and> w0 = set_file w p []"
  by (auto simp: open_write_def lookup_def split: option.splits node.splits if_splits)

lemma open_write_Inl: "open_write w p m = Inl e \<Longrightarrow> \<exists>k. e = os_error w k p"
  by (auto simp: open_write_def split: option.splits node.splits if_splits)

lemma wrote_not_E [simp]:
  "(CHR ''E'' # xs = wrote f) = False" "(wrote f = CHR ''E'' # xs) = False"
  by (simp_all add: wrote_def check_mark_def)

lemma write_success:
  assumes "fst (write_to_file w f c m) = Inr (wrote f)"
  shows "\<exists>p w0 old. get_safe_path w f = Inr p
           \<and> \<not> (path_exists w p = Inr True
                \<and> lower (path_suffix p) \<in> set [''.pdf'', ''.docx'', ''.db'', ''.sqlite''])
           \<and> open_write w p (if m = ''a'' then ''a'' else ''w'') = Inr (w0, old)
           \<and> utf8_valid c
           \<and> snd (write_to_file w f c m) = set_file w0 p (old @ c)"
  using assms
  by (auto simp: write_to_file_def except_Exception_def Let_def cannot_write_def
      split: sum.splits if_splits prod.splits)

lemma read_text_file:
  assumes "get_safe_path w f = Inr p" and "lookup w p = Some (File b)"
    and "lower (path_suffix p) \<noteq> ''.pdf''" and "lower (path_suffix p) \<noteq> ''.docx''"
    and "utf8_valid b"
  shows "read_file env w f = (Inr (universal_newlines b), w)"
  using assms lookup_short [OF assms(2)]
  by (simp add: read_file_def except_Exception_def path_exists_def open_read_def
      decode_text_def Let_def)

lemma connect_file:
  "lookup w p = Some (File img) \<Longrightarrow>
   sqlite3_connect w p
     = (Inr \<lparr>conn_path = p, conn_image = img, total_changes = 0, in_progress = False\<rparr>,
        w\<lparr>conns := p # conns w\<rparr>)"
  by (frule lookup_short) (simp add: sqlite3_connect_def)

lemma connect_new:
  "\<not> name_too_long p \<Longrightarrow> lookup w p = None \<Longrightarrow> lookup w (butlast p) = Some Dir \<Longrightarrow>
   sqlite3_connect w p
     = (Inr \<lparr>conn_path = p, conn_image = [], total_changes = 0, in_progress = False\<rparr>,
        (set_file w p [])\<lparr>conns := p # conns w\<rparr>)"
  by (simp add: sqlite3_connect_def)

lemma connect_dir:
  "lookup w p = Some Dir \<Longrightarrow> sqlite3_connect w p = (Inl unable_to_open, w)"
  by (simp add: sqlite3_connect_def)

lemma connect_created:
  assumes "sqlite3_connect w p = (Inr conn, w1)" and "lookup w p = None"
  shows "p \<noteq> [] \<and> \<not> name_too_long p \<and> lookup w (butlast p) = Some Dir
         \<and> conn = \<lparr>conn_path = p, conn_image = [], total_changes = 0, in_progress = False\<rparr>
         \<and> w1 = (set_file w p [])\<lparr>conns := p # conns w\<rparr>"
  using assms
  by (auto simp: sqlite3_connect_def lookup_def split: if_splits option.splits node.splits)

lemma close_after_connect [simp]:
  "conn_path conn = p \<Longrightarrow> close (w\<lparr>conns := p # conns w\<rparr>) conn = w"
  by (simp add: close_def)

lemma close_after_create [simp]:
  "conn_path conn = p \<Longrightarrow> close ((set_file w p b)\<lparr>conns := p # conns w\<rparr>) conn = set_file w p b"
  by (simp add: close_def set_file_def)

lemma execute_path [simp]:
  "execute env conn q = Inr (cur, conn1) \<Longrightarrow> conn_path conn1 = conn_path conn"
  by (auto simp: execute_def split: exec_outcome.splits)

lemma connect_cases:
  "sqlite3_connect w p = (r, w1) \<Longrightarrow>
     (\<exists>e. r = Inl e \<and> w1 = w)
     \<or> (\<exists>conn. r = Inr conn \<and> conn_path conn = p \<and> conns w1 = p # conns w)"
  by (auto simp: sqlite3_connect_def set_file_def split: if_splits option.splits node.splits)

lemma conns_close [simp]: "conns (close w conn) = remove1 (conn_path conn) (conns w)"
  by (simp add: close_def)

lemma conns_commit: "commit w conn = Inr w2 \<Longrightarrow> conns w2 = conns w"
  by (auto simp: commit_def set_file_def split: if_splits)

lemma run_sql_query_conns: "conns (snd (run_sql_query env w f q)) = conns w"
proof (cases "get_safe_path w f")
  case (Inl e)
  then show ?thesis
    by (simp add: run_sql_query_def except_Exception_def)
next
  case (Inr p)
  obtain r w1 where c: "sqlite3_connect w p = (r, w1)"
    by (cases "sqlite3_connect w p")
  from connect_cases [OF c] show ?thesis
  proof (elim disjE exE conjE)
    fix e assume "r = Inl e" "w1 = w"
    with Inr c show ?thesis
      by (simp add: run_sql_query_def except_Exception_def)
  next
    fix conn assume r: "r = Inr conn" and cp: "conn_path conn = p"
      and cs: "conns w1 = p # conns w"
    show ?thesis
    proof (cases "execute env conn q")
      case (Inl e)
      with Inr c r cp cs show ?thesis
        by (simp add: run_sql_query_def except_Exception_def)
    next
      case (Inr b)
      obtain cur conn1 where b: "b = (cur, conn1)" by (cases b)
      with Inr have cp1: "conn_path conn1 = p"
        using cp execute_path by blast
      note facts = \<open>get_safe_path w f = Inr p\<close> c r cs Inr b cp1
      show ?thesis
      proof (cases "commit w1 conn1")
        case (Inl e)
        with facts show ?thesis
          by (simp add: run_sql_query_def except_Exception_def)
      next
        case (Inr w2)
        from conns_commit [OF this] cs have "conns w2 = p # conns w"
          by simp
        with facts Inr show ?thesis
          by (simp add: run_sql_query_def except_Exception_def Let_def
              split: option.splits list.splits)
      qed
    qed
  qed
qed

lemma py_dict_fold:
  "map_of (foldl (\<lambda>d (k, v). AList.update k v d) acc kvs) = map_of (rev kvs @ acc)"
  by (induction kvs arbitrary: acc) (auto simp: update_conv' fun_eq_iff map_add_def split: option.splits)

lemma py_dict_map_of: "map_of (py_dict kvs) = map_of (rev kvs)"
  by (simp add: py_dict_def py_dict_fold)

lemma render_rows_set_file [simp]: "render_rows (set_file w p b) = render_rows w"
proof -
  have r: "py_repr (set_file w p b) = py_repr w"
    by (rule ext) (simp add: py_repr_def set_file_def)
  have "value_repr (set_file w p b) v = value_repr w v" for v
    by (cases v) (simp_all add: r)
  then show ?thesis
    by (intro ext) (simp add: render_rows_def repr_dict_def r)
qed

lemma render_select_1: "render_rows w [''1''] [[SqlInteger 1]] = ''[{'1': 1}]''"
  by code_simp

lemma rows_affected_0: "rows_affected 0 = check_mark @ '' Success. Rows affected: 0''"
  by code_simp

lemma run_sql_query_ok:
  assumes "get_safe_path w f = Inr p" and "lookup w p = Some (File img)"
    and "sql_engine env img q = ExecOk desc rows n img' False"
  shows "run_sql_query env w f q
         = (Inr (case desc of
                   Some (d # ds) \<Rightarrow>
                     if rows = [] then ''Query returned 0 results.''
                     else render_rows w (d # ds) rows
                 | _ \<Rightarrow> rows_affected n),
            set_file w p img')"
  using assms
  by (simp add: run_sql_query_def except_Exception_def connect_file execute_def commit_def
      close_def set_file_def Let_def split: option.splits list.splits)

lemma run_sql_query_busy:
  assumes "get_safe_path w f = Inr p" and "lookup w p = Some (File img)"
    and "sql_engine env img q = ExecOk desc rows n img' True"
  shows "run_sql_query env w f q
         = (Inr ''Query Execution Error: cannot commit transaction - SQL statements in progress'',
            w)"
  using assms
  by (simp add: run_sql_query_def except_Exception_def connect_file execute_def commit_def)

lemma endswith_basename:
  assumes "endswith f s" and "CHR ''/'' \<notin> set s"
  shows "\<exists>b. basename f = b @ s"
proof -
  from assms(1) have "f = take (length f - length s) f @ s"
    by (metis append_take_drop_id endswith_def)
  then have "basename f = basename (take (length f - length s) f) @ s"
    using basename_append [OF assms(2)] by metis
  then show ?thesis ..
qed

lemma root_names_no_db:
  assumes "basename f = [] \<or> basename f = ''.''"
  shows "\<not> (endswith f ''.db'' \<or> endswith f ''.sqlite'')"
proof
  assume "endswith f ''.db'' \<or> endswith f ''.sqlite''"
  then obtain b where "basename f = b @ ''.db'' \<or> basename f = b @ ''.sqlite''"
    using endswith_basename [of f "''.db''"] endswith_basename [of f "''.sqlite''"]
    by auto
  then have "3 \<le> length (basename f)"
    by auto
  with assms show False
    by auto
qed

lemma target_folder_suffix [simp]: "path_suffix (TARGET_FOLDER w) = []"
  by (simp add: path_suffix_def path_name_def TARGET_FOLDER_def rfind_def)

lemma startswith_refl [simp]: "startswith s s"
  by (simp add: startswith_def)

lemma resolve_root:
  "basename f = [] \<or> basename f = ''.'' \<Longrightarrow> get_safe_path w f = Inr (TARGET_FOLDER w)"
  by (auto simp: get_safe_path_def resolve_def utf8_length_def Let_def)

section \<open>Names that the system refuses\<close>

text \<open>
  A name that cannot be encoded is refused by the resolver with the error of the codec.
  A name of more than 255 bytes passes the resolver, and the first call that hands it to
  the system fails: the test for existence in five of the tools, the opening of the
  connection in \<^verbatim>\<open>run_sql_query\<close>. Nothing is created.
\<close>

lemma get_safe_path_surrogate:
  "\<not> utf8_valid (basename f) \<Longrightarrow> get_safe_path w f = Inl encode_error"
  by (simp add: get_safe_path_def)

lemma get_safe_path_surrogate_example:
  "get_safe_path small_world [CHR 0xED, CHR 0xA0, CHR 0x80] = Inl encode_error
   \<and> read_file toy_env small_world [CHR 0xED, CHR 0xA0, CHR 0x80]
       = (Inr ''Error: surrogates not allowed'', small_world)"
  by (simp add: path_defs read_file_def except_Exception_def encode_error_def)

lemma name_too_long_replies:
  assumes p: "get_safe_path w f = Inr p" and long: "name_too_long p"
  shows "read_file env w f
           = (Inr (''Error: [Errno 36] File name too long: '' @ py_repr w (path_str p)), w)"
    and "write_to_file w f c m
           = (Inr (''Error: [Errno 36] File name too long: '' @ py_repr w (path_str p)), w)"
    and "delete_file w f
           = (Inr (''Error deleting file: [Errno 36] File name too long: ''
                   @ py_repr w (path_str p)), w)"
    and "endswith f ''.db'' \<or> endswith f ''.sqlite'' \<Longrightarrow>
         create_sql_db w f
           = (Inr (''Error creating database: [Errno 36] File name too long: ''
                   @ py_repr w (path_str p)), w)"
    and "inspect_sql_db env w f
           = (Inr (''Error: [Errno 36] File name too long: '' @ py_repr w (path_str p)), w)"
    and "run_sql_query env w f q = (Inr ''System Error: unable to open database file'', w)"
  using p long
  by (simp_all add: read_file_def write_to_file_def delete_file_def create_sql_db_def
      inspect_sql_db_def run_sql_query_def except_Exception_def path_exists_def
      sqlite3_connect_def os_error_def unable_to_open_def)

lemma name_too_long_example:
  "get_safe_path small_world (replicate 256 (CHR ''n'') @ ''.db'')
     = Inr [''srv'', ''workspace'', replicate 256 (CHR ''n'') @ ''.db'']
   \<and> name_too_long [''srv'', ''workspace'', replicate 256 (CHR ''n'') @ ''.db'']
   \<and> fst (create_sql_db small_world (replicate 256 (CHR ''n'') @ ''.db''))
       = Inr (''Error creating database: [Errno 36] File name too long: '/srv/workspace/''
              @ replicate 256 (CHR ''n'') @ ''.db'' @ [CHR 0x27])"
  by code_simp

section \<open>The properties of the specification\<close>

text \<open>
  C1. The resolver is to return the workspace or a path below it, or to refuse. With the
  workspace at \<^verbatim>\<open>/srv/workspace\<close> and its entry \<^verbatim>\<open>notes.txt\<close> a symbolic link to
  \<^verbatim>\<open>/srv/workspace-old/notes.txt\<close>, it returns the link's target: the string of that
  path starts with the string of the workspace, and the path is neither the workspace
  nor below it. \<^verbatim>\<open>read_file\<close> then returns the content of the file outside.
\<close>

theorem get_safe_path_sibling:
  "get_safe_path sibling_world ''notes.txt'' = Inr [''srv'', ''workspace-old'', ''notes.txt'']
   \<and> \<not> is_relative_to [''srv'', ''workspace-old'', ''notes.txt''] (TARGET_FOLDER sibling_world)
   \<and> read_file toy_env sibling_world ''notes.txt'' = (Inr ''secret'', sibling_world)"
  by (simp add: path_defs file_defs sibling_world_def is_relative_to_def Let_def)

text \<open>
  C2. Each of the seven tools, on every world and for all string arguments, returns a
  string: no exception leaves a tool.
\<close>

theorem tools_return_strings:
  "returns_string (list_files w)
   \<and> returns_string (read_file env w filename)
   \<and> returns_string (write_to_file w filename content mode)
   \<and> returns_string (delete_file w filename)
   \<and> returns_string (create_sql_db w filename)
   \<and> returns_string (inspect_sql_db env w filename)
   \<and> returns_string (run_sql_query env w filename query)"
proof -
  have "returns_string (create_sql_db w filename)"
    unfolding create_sql_db_def
    by (simp add: returns_string_except) (simp add: returns_string_def)
  then show ?thesis
    by (simp add: list_files_def read_file_def write_to_file_def delete_file_def
        inspect_sql_db_def run_sql_query_def returns_string_except)
qed

text \<open>
  C3, as stated, fails twice: a carriage return in the content is read back as a line
  feed, and for the empty file name (which resolves to the workspace directory) the
  write itself fails, so that the read does not give the content back.
\<close>

theorem round_trip_counterexample:
  "fst (write_to_file small_world ''n.txt'' [CHR ''a'', CHR 0x0D, CHR ''b''] ''w'')
     = Inr (wrote ''n.txt'')
   \<and> fst (read_file toy_env
            (snd (write_to_file small_world ''n.txt'' [CHR ''a'', CHR 0x0D, CHR ''b''] ''w''))
            ''n.txt'')
     = Inr [CHR ''a'', CHR 0x0A, CHR ''b'']
   \<and> fst (write_to_file small_world [] ''X'' ''w'')
     = Inr (''Error: [Errno 21] Is a directory: '/srv/workspace'' @ [CHR 0x27])
   \<and> fst (read_file toy_env (snd (write_to_file small_world [] ''X'' ''w'')) [])
     = Inr (''Error: [Errno 21] Is a directory: '/srv/workspace'' @ [CHR 0x27])"
  by (simp add: path_defs file_defs repr_defs small_world_def Let_def)

text \<open>
  C3, amended. Let a write of \<open>X\<close> to \<open>f\<close> in a mode other than \<^verbatim>\<open>"a"\<close> report
  success, let the resolved path have an extension other than \<^verbatim>\<open>.pdf\<close> and
  \<^verbatim>\<open>.docx\<close>, and let \<open>X\<close> have no carriage return. Then reading \<open>f\<close> returns exactly
  \<open>X\<close>; and if a following write of \<open>Y\<close> (without carriage return) in mode \<^verbatim>\<open>"a"\<close>
  reports success, reading \<open>f\<close> returns exactly \<open>X @ Y\<close>.
\<close>

theorem write_read_round_trip:
  assumes w1: "write_to_file w f X m = (Inr (wrote f), w1)" and m: "m \<noteq> ''a''"
    and p: "get_safe_path w f = Inr p"
    and kind: "lower (path_suffix p) \<noteq> ''.pdf''" "lower (path_suffix p) \<noteq> ''.docx''"
    and X: "CHR 0x0D \<notin> set X"
  shows "read_file env w1 f = (Inr X, w1)
         \<and> (\<forall>Y w2. write_to_file w1 f Y ''a'' = (Inr (wrote f), w2) \<and> CHR 0x0D \<notin> set Y
              \<longrightarrow> read_file env w2 f = (Inr (X @ Y), w2))"
proof -
  from w1 have "fst (write_to_file w f X m) = Inr (wrote f)" by simp
  from write_success [OF this] p m w1
  obtain w0 old where ow: "open_write w p ''w'' = Inr (w0, old)" and vX: "utf8_valid X"
    and w1_eq: "w1 = set_file w0 p (old @ X)"
    by auto
  from open_write_w [OF ow] have ne: "p \<noteq> []" "\<not> name_too_long p"
    and w1': "w1 = set_file (set_file w p []) p X"
    using w1_eq by auto
  have p1: "get_safe_path w1 f = Inr p"
    using p by (simp add: w1')
  have f1: "lookup w1 p = Some (File X)"
    using ne by (simp add: w1' lookup_set_file)
  have first: "read_file env w1 f = (Inr X, w1)"
    using read_text_file [OF p1 f1 kind vX] X by (simp add: universal_newlines_id)
  have second: "read_file env w2 f = (Inr (X @ Y), w2)"
    if app: "write_to_file w1 f Y ''a'' = (Inr (wrote f), w2)" and Y: "CHR 0x0D \<notin> set Y"
    for Y w2
  proof -
    from app have "fst (write_to_file w1 f Y ''a'') = Inr (wrote f)" by simp
    from write_success [OF this] p1 app
    obtain w0' old' where ow': "open_write w1 p ''a'' = Inr (w0', old')" and vY: "utf8_valid Y"
      and w2_eq: "w2 = set_file w0' p (old' @ Y)"
      by auto
    from open_write_a [OF ow'] f1 have "old' = X" "w0' = w1"
      by auto
    with w2_eq have w2': "w2 = set_file w1 p (X @ Y)" by simp
    have p2: "get_safe_path w2 f = Inr p"
      using p1 by (simp add: w2')
    have f2: "lookup w2 p = Some (File (X @ Y))"
      using ne by (simp add: w2' lookup_set_file)
    have "CHR 0x0D \<notin> set (X @ Y)"
      using X Y by simp
    then show ?thesis
      using read_text_file [OF p2 f2 kind utf8_valid_append [OF vX vY]]
      by (simp add: universal_newlines_id)
  qed
  from first second show ?thesis by blast
qed

theorem write_read_round_trip_witness:
  "fst (read_file toy_env (snd (write_to_file small_world ''n.txt'' ''X'' ''w'')) ''n.txt'')
     = Inr ''X''
   \<and> fst (read_file toy_env
            (snd (write_to_file (snd (write_to_file small_world ''n.txt'' ''X'' ''w''))
                    ''n.txt'' ''Y'' ''a''))
            ''n.txt'')
     = Inr ''XY''"
proof -
  let ?w1 = "snd (write_to_file small_world ''n.txt'' ''X'' ''w'')"
  let ?w2 = "snd (write_to_file ?w1 ''n.txt'' ''Y'' ''a'')"
  have a: "write_to_file small_world ''n.txt'' ''X'' ''w'' = (Inr (wrote ''n.txt''), ?w1)"
    by (simp add: path_defs file_defs small_world_def prod_eq_iff)
  have b: "write_to_file ?w1 ''n.txt'' ''Y'' ''a'' = (Inr (wrote ''n.txt''), ?w2)"
    by (simp add: path_defs file_defs small_world_def prod_eq_iff)
  have p: "get_safe_path small_world ''n.txt'' = Inr [''srv'', ''workspace'', ''n.txt'']"
    by (simp add: path_defs small_world_def)
  have k: "lower (path_suffix [''srv'', ''workspace'', ''n.txt'']) \<noteq> ''.pdf''"
    "lower (path_suffix [''srv'', ''workspace'', ''n.txt'']) \<noteq> ''.docx''"
    by (simp_all add: path_defs)
  have "read_file toy_env ?w1 ''n.txt'' = (Inr ''X'', ?w1)
        \<and> (\<forall>Y w2. write_to_file ?w1 ''n.txt'' Y ''a'' = (Inr (wrote ''n.txt''), w2)
               \<and> CHR 0x0D \<notin> set Y
             \<longrightarrow> read_file toy_env w2 ''n.txt'' = (Inr (''X'' @ Y), w2))"
    by (rule write_read_round_trip [OF a _ p k]) simp_all
  then have "read_file toy_env ?w1 ''n.txt'' = (Inr ''X'', ?w1)"
    and "write_to_file ?w1 ''n.txt'' ''Y'' ''a'' = (Inr (wrote ''n.txt''), ?w2)
           \<and> CHR 0x0D \<notin> set ''Y''
         \<longrightarrow> read_file toy_env ?w2 ''n.txt'' = (Inr (''X'' @ ''Y''), ?w2)"
    by blast+
  with b show ?thesis
    by simp
qed

text \<open>
  C4. \<^verbatim>\<open>write_to_file\<close> answers with the refusal to write exactly when the resolved target
  exists and its lower-cased extension is one of \<^verbatim>\<open>.pdf\<close>, \<^verbatim>\<open>.docx\<close>, \<^verbatim>\<open>.db\<close>,
  \<^verbatim>\<open>.sqlite\<close>. For a target that does not exist the guard lets the write through,
  whatever the extension: the file is opened in the mode asked for; if the system refuses
  to open it, the answer is the error of the system and nothing has changed; if the
  system opens it and the content can be encoded, the write reports success and the file
  holds the content.
\<close>

theorem write_guard:
  "(fst (write_to_file w f c m) = Inr cannot_write
      \<longleftrightarrow> (\<exists>p. get_safe_path w f = Inr p \<and> path_exists w p = Inr True
                \<and> lower (path_suffix p) \<in> set [''.pdf'', ''.docx'', ''.db'', ''.sqlite'']))
   \<and> (\<forall>p e. get_safe_path w f = Inr p \<and> path_exists w p = Inr False
             \<and> open_write w p (if m = ''a'' then ''a'' else ''w'') = Inl e
         \<longrightarrow> write_to_file w f c m = (Inr (''Error: '' @ exn_str e), w))
   \<and> (\<forall>p w1 old. get_safe_path w f = Inr p \<and> path_exists w p = Inr False
             \<and> open_write w p (if m = ''a'' then ''a'' else ''w'') = Inr (w1, old)
             \<and> utf8_valid c
         \<longrightarrow> fst (write_to_file w f c m) = Inr (wrote f)
             \<and> lookup (snd (write_to_file w f c m)) p = Some (File c))"
proof -
  have msgs: "''Error: '' @ exn_str (access_denied f) \<noteq> cannot_write"
    "''Error: '' @ exn_str (os_error w k q) \<noteq> cannot_write"
    "''Error: '' @ exn_str encode_error \<noteq> cannot_write" "wrote f \<noteq> cannot_write"
    "''Error: '' @ exn_str null_byte \<noteq> cannot_write" for k q
    by (simp_all add: access_denied_def os_error_def encode_error_def cannot_write_def
        null_byte_def)
  note denied = get_safe_path_Inl [of w f]
  have iff: "fst (write_to_file w f c m) = Inr cannot_write
      \<longleftrightarrow> (\<exists>p. get_safe_path w f = Inr p \<and> path_exists w p = Inr True
                \<and> lower (path_suffix p) \<in> set [''.pdf'', ''.docx'', ''.db'', ''.sqlite''])"
    using msgs
    by (auto simp: write_to_file_def except_Exception_def Let_def
        simp del: append.simps set_simps
        split: sum.splits prod.splits dest!: denied open_write_Inl path_exists_Inl)
  have refused: "write_to_file w f c m = (Inr (''Error: '' @ exn_str e), w)"
    if "get_safe_path w f = Inr p" "path_exists w p = Inr False"
      "open_write w p (if m = ''a'' then ''a'' else ''w'') = Inl e" for p e
    using that by (simp add: write_to_file_def except_Exception_def)
  have new: "fst (write_to_file w f c m) = Inr (wrote f)
             \<and> lookup (snd (write_to_file w f c m)) p = Some (File c)"
    if p: "get_safe_path w f = Inr p" and missing: "path_exists w p = Inr False"
      and ow: "open_write w p (if m = ''a'' then ''a'' else ''w'') = Inr (w1, old)"
      and c: "utf8_valid c" for p w1 old
  proof -
    from missing have none: "lookup w p = None"
      by (simp add: path_exists_missing)
    from open_write_new [OF ow none]
    have ne: "p \<noteq> []" "\<not> name_too_long p" and old: "old = []" "w1 = set_file w p []"
      by simp_all
    from p missing c ow old have "write_to_file w f c m
        = (Inr (wrote f), set_file (set_file w p []) p c)"
      by (simp add: write_to_file_def except_Exception_def)
    with ne show ?thesis
      by (simp add: lookup_set_file)
  qed
  from iff refused new show ?thesis by blast
qed

theorem write_guard_witness:
  "fst (write_to_file small_world ''report.pdf'' ''x'' ''w'') = Inr cannot_write
   \<and> fst (write_to_file small_world ''new.pdf'' ''x'' ''w'') = Inr (wrote ''new.pdf'')
   \<and> lookup (snd (write_to_file small_world ''new.pdf'' ''x'' ''w''))
        [''srv'', ''workspace'', ''new.pdf''] = Some (File ''x'')"
proof -
  let ?new = "[''srv'', ''workspace'', ''new.pdf'']"
  have old: "\<exists>p. get_safe_path small_world ''report.pdf'' = Inr p
      \<and> path_exists small_world p = Inr True
      \<and> lower (path_suffix p) \<in> set [''.pdf'', ''.docx'', ''.db'', ''.sqlite'']"
    by (simp add: path_defs small_world_def)
  have new: "get_safe_path small_world ''new.pdf'' = Inr ?new
      \<and> path_exists small_world ?new = Inr False
      \<and> open_write small_world ?new (if ''w'' = ''a'' then ''a'' else ''w'')
          = Inr (set_file small_world ?new [], [])
      \<and> utf8_valid ''x''"
    by (simp add: path_defs open_write_def small_world_def)
  from write_guard [of small_world "''report.pdf''" "''x''" "''w''"] old
  have 1: "fst (write_to_file small_world ''report.pdf'' ''x'' ''w'') = Inr cannot_write"
    by blast
  from write_guard [of small_world "''new.pdf''" "''x''" "''w''"] new
  have 2: "fst (write_to_file small_world ''new.pdf'' ''x'' ''w'') = Inr (wrote ''new.pdf'')
     \<and> lookup (snd (write_to_file small_world ''new.pdf'' ''x'' ''w'')) ?new
         = Some (File ''x'')"
    by blast
  from 1 2 show ?thesis by blast
qed

text \<open>
  C5. \<^verbatim>\<open>create_sql_db\<close> tests the extension first: a name that ends neither in
  \<^verbatim>\<open>.db\<close> nor in \<^verbatim>\<open>.sqlite\<close> is refused whatever the resolver would say. If the
  resolved target exists, the answer is that the file already exists and the world (so the
  content of the file) is unchanged. If the target does not exist and SQLite opens a
  connection to it, an empty file is created, no connection stays open, and a second call
  answers that the file already exists and changes nothing.
\<close>

theorem create_sql_db_spec:
  "(\<not> (endswith f ''.db'' \<or> endswith f ''.sqlite'') \<longrightarrow> create_sql_db w f = (Inr bad_extension, w))
   \<and> ((endswith f ''.db'' \<or> endswith f ''.sqlite'') \<and> get_safe_path w f = Inr p
        \<and> path_exists w p = Inr True
      \<longrightarrow> create_sql_db w f = (Inr (already_exists f), w))
   \<and> ((endswith f ''.db'' \<or> endswith f ''.sqlite'') \<and> get_safe_path w f = Inr p
        \<and> path_exists w p = Inr False \<and> sqlite3_connect w p = (Inr conn, w1)
      \<longrightarrow> create_sql_db w f = (Inr (created f), set_file w p [])
          \<and> lookup (set_file w p []) p = Some (File [])
          \<and> conns (set_file w p []) = conns w
          \<and> create_sql_db (set_file w p []) f = (Inr (already_exists f), set_file w p []))"
proof -
  have 1: "create_sql_db w f = (Inr bad_extension, w)"
    if "\<not> (endswith f ''.db'' \<or> endswith f ''.sqlite'')"
    using that by (simp add: create_sql_db_def)
  have 2: "create_sql_db w' f = (Inr (already_exists f), w')"
    if "endswith f ''.db'' \<or> endswith f ''.sqlite''" "get_safe_path w' f = Inr p"
      "path_exists w' p = Inr True" for w'
    using that by (auto simp: create_sql_db_def except_Exception_def)
  have 3: "create_sql_db w f = (Inr (created f), set_file w p [])
          \<and> lookup (set_file w p []) p = Some (File [])
          \<and> conns (set_file w p []) = conns w
          \<and> create_sql_db (set_file w p []) f = (Inr (already_exists f), set_file w p [])"
    if ext: "endswith f ''.db'' \<or> endswith f ''.sqlite''" and p: "get_safe_path w f = Inr p"
      and new: "path_exists w p = Inr False" and c: "sqlite3_connect w p = (Inr conn, w1)"
  proof -
    from new have none: "lookup w p = None"
      by (simp add: path_exists_missing)
    from connect_created [OF c none]
    have ne: "p \<noteq> []" "\<not> name_too_long p" and cp: "conn_path conn = p"
      and w1: "w1 = (set_file w p [])\<lparr>conns := p # conns w\<rparr>"
      by simp_all
    have a: "create_sql_db w f = (Inr (created f), set_file w p [])"
      using ext p new c cp by (auto simp: create_sql_db_def except_Exception_def w1)
    have b: "lookup (set_file w p []) p = Some (File [])"
      using ne by (simp add: lookup_set_file)
    have "conns (set_file w p []) = conns w"
      by (simp add: set_file_def)
    with 2 [of "set_file w p []"] ext p a b path_exists_found [OF b] show ?thesis
      by simp
  qed
  from 1 2 [of w] 3 show ?thesis by blast
qed

theorem create_sql_db_spec_witness:
  "create_sql_db small_world ''..'' = (Inr bad_extension, small_world)
   \<and> get_safe_path small_world ''..'' = Inl (access_denied ''..'')
   \<and> create_sql_db small_world ''data.db'' = (Inr (already_exists ''data.db''), small_world)
   \<and> lookup small_world [''srv'', ''workspace'', ''data.db''] = Some (File ''image'')
   \<and> fst (create_sql_db small_world ''x.db'') = Inr (created ''x.db'')
   \<and> lookup (snd (create_sql_db small_world ''x.db'')) [''srv'', ''workspace'', ''x.db'']
       = Some (File [])
   \<and> conns (snd (create_sql_db small_world ''x.db'')) = []
   \<and> fst (create_sql_db (snd (create_sql_db small_world ''x.db'')) ''x.db'')
       = Inr (already_exists ''x.db'')"
proof -
  let ?x = "[''srv'', ''workspace'', ''x.db'']"
  have e1: "\<not> (endswith ''..'' ''.db'' \<or> endswith ''..'' ''.sqlite'')"
    by (simp add: endswith_def)
  have d: "get_safe_path small_world ''..'' = Inl (access_denied ''..'')"
    by (simp add: path_defs small_world_def)
  have e2: "(endswith ''data.db'' ''.db'' \<or> endswith ''data.db'' ''.sqlite'')
      \<and> get_safe_path small_world ''data.db'' = Inr [''srv'', ''workspace'', ''data.db'']
      \<and> path_exists small_world [''srv'', ''workspace'', ''data.db''] = Inr True"
    by (simp add: endswith_def path_defs small_world_def)
  have l: "lookup small_world [''srv'', ''workspace'', ''data.db''] = Some (File ''image'')"
    by (simp add: lookup_def name_too_long_def small_world_def)
  have e3: "(endswith ''x.db'' ''.db'' \<or> endswith ''x.db'' ''.sqlite'')
      \<and> get_safe_path small_world ''x.db'' = Inr ?x
      \<and> path_exists small_world ?x = Inr False
      \<and> sqlite3_connect small_world ?x
          = (Inr \<lparr>conn_path = ?x, conn_image = [], total_changes = 0, in_progress = False\<rparr>,
             (set_file small_world ?x [])\<lparr>conns := [?x]\<rparr>)"
    by (simp add: endswith_def path_defs sqlite3_connect_def small_world_def)
  have cs: "conns small_world = []"
    by (simp add: small_world_def)
  from create_sql_db_spec [of "''..''" small_world] e1
  have 1: "create_sql_db small_world ''..'' = (Inr bad_extension, small_world)"
    by blast
  from create_sql_db_spec [of "''data.db''" small_world "[''srv'', ''workspace'', ''data.db'']"] e2
  have 2: "create_sql_db small_world ''data.db'' = (Inr (already_exists ''data.db''), small_world)"
    by blast
  from create_sql_db_spec [of "''x.db''" small_world ?x] e3
  have 3: "create_sql_db small_world ''x.db'' = (Inr (created ''x.db''), set_file small_world ?x [])
      \<and> lookup (set_file small_world ?x []) ?x = Some (File [])
      \<and> conns (set_file small_world ?x []) = conns small_world
      \<and> create_sql_db (set_file small_world ?x []) ''x.db''
        = (Inr (already_exists ''x.db''), set_file small_world ?x [])"
    by blast
  from 1 d 2 l 3 cs show ?thesis
    by simp
qed

text \<open>
  C6. A statement that gives a result set is to have its rows fetched and rendered.
  \<^verbatim>\<open>run_sql_query\<close> commits before it fetches. For a statement that writes and returns
  rows (\<^verbatim>\<open>INSERT ... RETURNING\<close>) SQLite refuses the commit while the rows have not been
  fetched: the stand-in engine gives for this statement what SQLite gives (a column, a
  row, one changed row, a statement still in progress), and the tool answers with a query
  error; the database is as it was, the insertion is lost.
\<close>

theorem run_sql_query_returning:
  "sql_engine toy_env ''image'' ''INSERT INTO t VALUES (1) RETURNING id''
     = ExecOk (Some [''id'']) [[SqlInteger 1]] 1 (''image'' @ ''t:1;'') True
   \<and> run_sql_query toy_env small_world ''data.db'' ''INSERT INTO t VALUES (1) RETURNING id''
     = (Inr ''Query Execution Error: cannot commit transaction - SQL statements in progress'',
        small_world)"
proof -
  have p: "get_safe_path small_world ''data.db'' = Inr [''srv'', ''workspace'', ''data.db'']"
    by (simp add: path_defs small_world_def)
  have img: "lookup small_world [''srv'', ''workspace'', ''data.db''] = Some (File ''image'')"
    by (simp add: lookup_def name_too_long_def small_world_def)
  have e: "sql_engine toy_env ''image'' ''INSERT INTO t VALUES (1) RETURNING id''
     = ExecOk (Some [''id'']) [[SqlInteger 1]] 1 (''image'' @ ''t:1;'') True"
    by (simp add: toy_env_def toy_engine_def)
  from e run_sql_query_busy [OF p img e] show ?thesis
    by blast
qed

text \<open>
  The paths on which the commit goes through. On a database file, a statement that the
  engine executes with a result set is answered with the list of its rows, each row the
  dictionary from the column names to the values of the row; a result set without rows is
  answered with the message of zero results; a statement without result set is answered
  with the number of rows changed. If the engine gives \<^verbatim>\<open>SELECT 1\<close> the column \<^verbatim>\<open>1\<close>
  and the row \<^verbatim>\<open>(1,)\<close>, the answer is \<^verbatim>\<open>[{'1': 1}]\<close>; if it executes
  \<^verbatim>\<open>CREATE TABLE t(id INT)\<close> without result set and without changed rows, the answer is
  the count of rows affected, 0.
\<close>

lemma run_sql_query_results:
  assumes p: "get_safe_path w f = Inr p" and img: "lookup w p = Some (File img)"
  shows "(sql_engine env img q = ExecOk (Some (d # ds)) rows n img' False \<and> rows \<noteq> []
          \<longrightarrow> fst (run_sql_query env w f q)
              = Inr (repr_list (map (\<lambda>row. repr_dict w (py_dict (zip (d # ds) row))) rows)))
       \<and> (sql_engine env img q = ExecOk (Some (d # ds)) [] n img' False
          \<longrightarrow> fst (run_sql_query env w f q) = Inr ''Query returned 0 results.'')
       \<and> (sql_engine env img q = ExecOk None rows n img' False
          \<longrightarrow> fst (run_sql_query env w f q) = Inr (rows_affected n))
       \<and> (\<forall>row. map_of (py_dict (zip (d # ds) row)) = map_of (rev (zip (d # ds) row)))
       \<and> (sql_engine env img ''SELECT 1'' = ExecOk (Some [''1'']) [[SqlInteger 1]] 0 img False
          \<longrightarrow> fst (run_sql_query env w f ''SELECT 1'') = Inr ''[{'1': 1}]'')
       \<and> (sql_engine env img ''CREATE TABLE t(id INT)'' = ExecOk None [] 0 img' False
          \<longrightarrow> fst (run_sql_query env w f ''CREATE TABLE t(id INT)'')
              = Inr (check_mark @ '' Success. Rows affected: 0''))"
proof -
  note ok = run_sql_query_ok [OF p img]
  have 1: "fst (run_sql_query env w f q)
      = Inr (repr_list (map (\<lambda>row. repr_dict w (py_dict (zip (d # ds) row))) rows))"
    if "sql_engine env img q = ExecOk (Some (d # ds)) rows n img' False" "rows \<noteq> []"
    using ok [OF that(1)] that(2) by (simp add: render_rows_def)
  have 2: "fst (run_sql_query env w f q) = Inr ''Query returned 0 results.''"
    if "sql_engine env img q = ExecOk (Some (d # ds)) [] n img' False"
    using ok [OF that] by simp
  have 3: "fst (run_sql_query env w f q) = Inr (rows_affected n)"
    if "sql_engine env img q = ExecOk None rows n img' False"
    using ok [OF that] by simp
  have 4: "fst (run_sql_query env w f ''SELECT 1'') = Inr ''[{'1': 1}]''"
    if "sql_engine env img ''SELECT 1'' = ExecOk (Some [''1'']) [[SqlInteger 1]] 0 img False"
    using ok [OF that] by (simp add: render_select_1)
  have 5: "fst (run_sql_query env w f ''CREATE TABLE t(id INT)'')
      = Inr (check_mark @ '' Success. Rows affected: 0'')"
    if "sql_engine env img ''CREATE TABLE t(id INT)'' = ExecOk None [] 0 img' False"
    using ok [OF that] by (simp add: rows_affected_0)
  from 1 2 3 4 5 show ?thesis
    by (simp add: py_dict_map_of)
qed

lemma run_sql_query_results_example:
  "fst (run_sql_query toy_env small_world ''data.db'' ''SELECT 1'') = Inr ''[{'1': 1}]''
   \<and> fst (run_sql_query toy_env small_world ''data.db'' ''SELECT 1 WHERE 0'')
       = Inr ''Query returned 0 results.''
   \<and> fst (run_sql_query toy_env small_world ''data.db'' ''CREATE TABLE t(id INT)'')
       = Inr (check_mark @ '' Success. Rows affected: 0'')"
proof -
  have p: "get_safe_path small_world ''data.db'' = Inr [''srv'', ''workspace'', ''data.db'']"
    by (simp add: path_defs small_world_def)
  have img: "lookup small_world [''srv'', ''workspace'', ''data.db''] = Some (File ''image'')"
    by (simp add: lookup_def name_too_long_def small_world_def)
  have e1: "sql_engine toy_env ''image'' ''SELECT 1''
      = ExecOk (Some [''1'']) [[SqlInteger 1]] 0 ''image'' False"
    by (simp add: toy_env_def toy_engine_def)
  have e2: "sql_engine toy_env ''image'' ''SELECT 1 WHERE 0'' = ExecOk (Some [''1'']) [] 0 ''image'' False"
    by (simp add: toy_env_def toy_engine_def)
  have e3: "sql_engine toy_env ''image'' ''CREATE TABLE t(id INT)''
      = ExecOk None [] 0 (''image'' @ ''t(id INT);'') False"
    by (simp add: toy_env_def toy_engine_def)
  from run_sql_query_results [OF p img, of toy_env "''SELECT 1''" "''1''" "[]"
      "[[SqlInteger 1]]" 0 "''image''"] e1
  have 1: "fst (run_sql_query toy_env small_world ''data.db'' ''SELECT 1'') = Inr ''[{'1': 1}]''"
    by blast
  from run_sql_query_results [OF p img, of toy_env "''SELECT 1 WHERE 0''" "''1''" "[]"
      "[]" 0 "''image''"] e2
  have 2: "fst (run_sql_query toy_env small_world ''data.db'' ''SELECT 1 WHERE 0'')
       = Inr ''Query returned 0 results.''"
    by blast
  from run_sql_query_results [OF p img, of toy_env "''CREATE TABLE t(id INT)''" "''1''" "[]"
      "[]" 0 "''image'' @ ''t(id INT);''"] e3
  have 3: "fst (run_sql_query toy_env small_world ''data.db'' ''CREATE TABLE t(id INT)'')
       = Inr (check_mark @ '' Success. Rows affected: 0'')"
    by blast
  from 1 2 3 show ?thesis by blast
qed



text \<open>
  C8. A mode other than \<^verbatim>\<open>"a"\<close> is treated as \<^verbatim>\<open>"w"\<close>: the call does what the call
  with mode \<^verbatim>\<open>"w"\<close> does, and when it reports success the file holds exactly the given
  content, whatever it held before.
\<close>

theorem write_mode_default:
  assumes "m \<noteq> ''a''"
  shows "write_to_file w f c m = write_to_file w f c ''w''
         \<and> (fst (write_to_file w f c m) = Inr (wrote f)
            \<longrightarrow> (\<exists>p. get_safe_path w f = Inr p
                     \<and> lookup (snd (write_to_file w f c m)) p = Some (File c)))"
proof -
  have same: "write_to_file w f c m = write_to_file w f c ''w''"
    using assms by (simp add: write_to_file_def)
  have "\<exists>p. get_safe_path w f = Inr p \<and> lookup (snd (write_to_file w f c m)) p = Some (File c)"
    if ok: "fst (write_to_file w f c m) = Inr (wrote f)"
  proof -
    from write_success [OF ok] assms
    obtain p w0 old where p: "get_safe_path w f = Inr p"
      and ow: "open_write w p ''w'' = Inr (w0, old)"
      and w': "snd (write_to_file w f c m) = set_file w0 p (old @ c)"
      by auto
    from open_write_w [OF ow] w' have "lookup (snd (write_to_file w f c m)) p = Some (File c)"
      by (simp add: lookup_set_file)
    with p show ?thesis by blast
  qed
  with same show ?thesis by blast
qed

theorem write_mode_default_witness:
  "write_to_file small_world ''a.txt'' ''new'' ''append''
     = write_to_file small_world ''a.txt'' ''new'' ''w''
   \<and> fst (write_to_file small_world ''a.txt'' ''new'' ''append'') = Inr (wrote ''a.txt'')
   \<and> lookup (snd (write_to_file small_world ''a.txt'' ''new'' ''append''))
        [''srv'', ''workspace'', ''a.txt''] = Some (File ''new'')"
proof -
  have m: "''append'' \<noteq> ''a''" by simp
  have ok: "fst (write_to_file small_world ''a.txt'' ''new'' ''append'') = Inr (wrote ''a.txt'')"
    by (simp add: path_defs file_defs small_world_def)
  have p: "get_safe_path small_world ''a.txt'' = Inr [''srv'', ''workspace'', ''a.txt'']"
    by (simp add: path_defs small_world_def)
  from write_mode_default [OF m, of small_world "''a.txt''" "''new''"] ok p
  show ?thesis by auto
qed

text \<open>
  C9. For a file name whose last component is empty or \<^verbatim>\<open>.\<close>, the resolver returns
  the workspace directory itself. With the workspace directory in place, reading, writing
  and deleting then fail with the error of the operating system for a directory, and the
  two database tools that reach the resolver fail to open the database; none of them
  reports a denied access. \<^verbatim>\<open>create_sql_db\<close> refuses such a name for its extension,
  before it resolves anything.
\<close>

theorem resolver_root:
  assumes name: "basename f = [] \<or> basename f = ''.''"
    and dir: "lookup w (TARGET_FOLDER w) = Some Dir"
  shows "get_safe_path w f = Inr (TARGET_FOLDER w)
     \<and> read_file env w f
         = (Inr (''Error: [Errno 21] Is a directory: '' @ py_repr w (path_str (TARGET_FOLDER w))), w)
     \<and> write_to_file w f c m
         = (Inr (''Error: [Errno 21] Is a directory: '' @ py_repr w (path_str (TARGET_FOLDER w))), w)
     \<and> delete_file w f
         = (Inr (''Error deleting file: [Errno 21] Is a directory: ''
                 @ py_repr w (path_str (TARGET_FOLDER w))), w)
     \<and> inspect_sql_db env w f = (Inr ''Error: unable to open database file'', w)
     \<and> run_sql_query env w f q = (Inr ''System Error: unable to open database file'', w)
     \<and> create_sql_db w f = (Inr bad_extension, w)"
proof -
  note p = resolve_root [OF name, of w]
  note ex = path_exists_found [OF dir] lookup_short [OF dir]
  have 1: "read_file env w f
         = (Inr (''Error: [Errno 21] Is a directory: '' @ py_repr w (path_str (TARGET_FOLDER w))), w)"
    using p ex dir
    by (simp add: read_file_def except_Exception_def open_read_def os_error_def lower_def)
  have 2: "write_to_file w f c m
         = (Inr (''Error: [Errno 21] Is a directory: '' @ py_repr w (path_str (TARGET_FOLDER w))), w)"
    using p ex dir
    by (simp add: write_to_file_def except_Exception_def open_write_def os_error_def lower_def)
  have 3: "delete_file w f
         = (Inr (''Error deleting file: [Errno 21] Is a directory: ''
                 @ py_repr w (path_str (TARGET_FOLDER w))), w)"
    using p ex dir
    by (simp add: delete_file_def except_Exception_def os_remove_def os_error_def)
  have 4: "inspect_sql_db env w f = (Inr ''Error: unable to open database file'', w)"
    using p ex dir
    by (simp add: inspect_sql_db_def except_Exception_def connect_dir unable_to_open_def)
  have 5: "run_sql_query env w f q = (Inr ''System Error: unable to open database file'', w)"
    using p dir
    by (simp add: run_sql_query_def except_Exception_def connect_dir unable_to_open_def)
  have 6: "create_sql_db w f = (Inr bad_extension, w)"
    using root_names_no_db [OF name] by (simp add: create_sql_db_def)
  from p 1 2 3 4 5 6 show ?thesis by blast
qed

theorem resolver_root_witness:
  "get_safe_path small_world ''dir/'' = Inr [''srv'', ''workspace'']
   \<and> fst (read_file toy_env small_world ''dir/'')
       = Inr (''Error: [Errno 21] Is a directory: '/srv/workspace'' @ [CHR 0x27])
   \<and> fst (delete_file small_world ''dir/'')
       = Inr (''Error deleting file: [Errno 21] Is a directory: '/srv/workspace'' @ [CHR 0x27])
   \<and> fst (run_sql_query toy_env small_world ''dir/'' ''SELECT 1'')
       = Inr ''System Error: unable to open database file''"
proof -
  have name: "basename ''dir/'' = [] \<or> basename ''dir/'' = ''.''"
    by (simp add: basename_def rfind_def)
  have dir: "lookup small_world (TARGET_FOLDER small_world) = Some Dir"
    by (simp add: lookup_def name_too_long_def TARGET_FOLDER_def small_world_def)
  have s: "py_repr small_world (path_str (TARGET_FOLDER small_world))
      = '''/srv/workspace'' @ [CHR 0x27]"
    by (simp add: repr_defs utf8_length_def path_str_def TARGET_FOLDER_def small_world_def
        Let_def)
  have t: "TARGET_FOLDER small_world = [''srv'', ''workspace'']"
    by (simp add: TARGET_FOLDER_def small_world_def)
  from resolver_root [OF name dir, of toy_env _ _ "''SELECT 1''"] show ?thesis
    by (simp add: s) (simp add: t)
qed



end
